theory Spec2Isabelle
  imports Main "HOL-Library.Char_ord" "HOL-Library.List_Lexorder" "HOL-Library.Multiset"
begin

section \<open>Errors and the document store\<close>

text \<open>
  The service raises \<^verbatim>\<open>HTTPException\<close> with a status code; the request validation of
  the web framework answers 422; a plain \<^verbatim>\<open>INSERT\<close> on an existing primary key raises
  asyncpg's \<^verbatim>\<open>UniqueViolationError\<close>; reading a local that was never bound raises
  \<^verbatim>\<open>UnboundLocalError\<close>. Each is one constructor.
\<close>

datatype error =
    BadRequest
  | Forbidden
  | NotFound
  | Conflict
  | PreconditionRequired
  | ValidationError
  | UniqueViolation
  | UnboundLocal

text \<open>
  Every table is \<^verbatim>\<open>(id text PRIMARY KEY, data jsonb NOT NULL)\<close>: a list of rows, the
  key column first. A \<^verbatim>\<open>SELECT\<close> without \<^verbatim>\<open>ORDER BY\<close> returns rows in an order SQL
  leaves open; the model returns them in the order they were inserted.
\<close>

type_synonym 'a table = "(string \<times> 'a) list"

definition has_key :: "'a table \<Rightarrow> string \<Rightarrow> bool" where
  "has_key tbl k = (k \<in> set (map fst tbl))"

definition fetchrow_id :: "'a table \<Rightarrow> string \<Rightarrow> 'a option" where
  \<comment> \<open>\<^verbatim>\<open>SELECT data FROM t WHERE id=$1\<close> through \<^verbatim>\<open>db_fetchrow\<close>\<close>
  "fetchrow_id tbl k = map_of tbl k"

definition fetch_where :: "'a table \<Rightarrow> ('a \<Rightarrow> bool) \<Rightarrow> 'a list" where
  \<comment> \<open>\<^verbatim>\<open>SELECT data FROM t WHERE <condition on data>\<close> through \<^verbatim>\<open>db_fetch\<close>\<close>
  "fetch_where tbl P = filter P (map snd tbl)"

definition insert_row :: "'a table \<Rightarrow> string \<Rightarrow> 'a \<Rightarrow> error + 'a table" where
  \<comment> \<open>\<^verbatim>\<open>INSERT INTO t (id, data) VALUES ($1, $2)\<close>\<close>
  "insert_row tbl k d = (if has_key tbl k then Inl UniqueViolation else Inr (tbl @ [(k, d)]))"

definition insert_do_nothing :: "'a table \<Rightarrow> string \<Rightarrow> 'a \<Rightarrow> 'a table" where
  \<comment> \<open>\<^verbatim>\<open>INSERT ... ON CONFLICT (id) DO NOTHING\<close>\<close>
  "insert_do_nothing tbl k d = (if has_key tbl k then tbl else tbl @ [(k, d)])"

definition upsert_row :: "'a table \<Rightarrow> string \<Rightarrow> 'a \<Rightarrow> 'a table" where
  \<comment> \<open>\<^verbatim>\<open>INSERT ... ON CONFLICT (id) DO UPDATE SET data = EXCLUDED.data\<close>\<close>
  "upsert_row tbl k d =
     (if has_key tbl k then map (\<lambda>(k', d'). if k' = k then (k', d) else (k', d')) tbl
      else tbl @ [(k, d)])"

definition delete_row :: "'a table \<Rightarrow> string \<Rightarrow> 'a table" where
  \<comment> \<open>\<^verbatim>\<open>DELETE FROM t WHERE id=$1\<close>\<close>
  "delete_row tbl k = filter (\<lambda>(k', d'). k' \<noteq> k) tbl"

section \<open>Documents\<close>

record Tenant =
  tn_id :: string
  tn_name :: string
  tn_description :: "string option"
  tn_default_locale :: string
  tn_settings :: "(string \<times> string) list"
  tn_admin_roles :: "string list"
  tn_created_at :: string

record Channel =
  ch_id :: string
  ch_name :: string
  ch_tenant_id :: string
  ch_description :: "string option"
  ch_is_open :: bool
  ch_is_private :: bool
  ch_parent_id :: "string option"
  ch_updated_at :: string
  ch_updated_by :: "string option"

record Tokens =
  tk_id :: string
  tk_tenant_id :: string
  tk_device_tokens :: "string list"
  tk_updated_at :: string

record Subscription =
  sub_id :: string
  sub_tenant_id :: string
  sub_channel_id :: string
  sub_user_id :: string
  sub_created_at :: string

record Notification =
  ntf_tenant_id :: string
  ntf_channel_id :: string
  ntf_title :: string
  ntf_body :: string
  ntf_sent_by :: string
  ntf_id :: string
  ntf_sent_at :: string

text \<open>
  \<^verbatim>\<open>AuthUser\<close> comes from a module that is not part of the sources; the service reads
  its \<^verbatim>\<open>preferred_username\<close>, its \<^verbatim>\<open>subject\<close> and \<^verbatim>\<open>str(user)\<close>, so these three
  are its fields here.
\<close>

record AuthUser =
  preferred_username :: string
  subject :: string
  user_str :: string

text \<open>
  The state a request sees: the five tables, and the multicast messages handed to the
  push provider so far (tokens, title, body), oldest first.
\<close>

record state =
  tenants :: "Tenant table"
  channels :: "Channel table"
  subscriptions :: "Subscription table"
  tokens :: "Tokens table"
  notifications :: "Notification table"
  fcm_sent :: "(string list \<times> string \<times> string) list"

record Settings =
  DEFAULT_TENANT :: string
  DEFAULT_TENANT_NAME :: string

section \<open>Tenants\<close>

definition get_tenant_id :: "state \<Rightarrow> string \<Rightarrow> error + string" where
  "get_tenant_id st tenant_id =
     (case fetchrow_id (tenants st) tenant_id of
        None \<Rightarrow> Inl NotFound
      | Some tenant \<Rightarrow> Inr tenant_id)"

definition is_tenant_admin :: "string \<Rightarrow> string \<Rightarrow> bool" where
  "is_tenant_admin tenant_id user_id = True"

section \<open>Channels\<close>

record ChannelCreate =
  cc_id :: string
  cc_name :: string
  cc_description :: "string option"
  cc_is_open :: bool
  cc_is_private :: bool
  cc_parent_id :: "string option"

definition id_char :: "char \<Rightarrow> bool" where
  "id_char c = (c \<in> set ''abcdefghijklmnopqrstuvwxyz0123456789._-'')"

definition id_pattern :: "string \<Rightarrow> bool" where
  \<comment> \<open>the field pattern \<^verbatim>\<open>^[a-z0-9._-]+$\<close> of \<^verbatim>\<open>ChannelBase.id\<close>\<close>
  "id_pattern s = (s \<noteq> [] \<and> list_all id_char s)"

definition channels_init :: "Settings \<Rightarrow> string \<Rightarrow> state \<Rightarrow> (error + unit) \<times> state" where
  "channels_init settings now st =
     (case fetchrow_id (channels st) ''heartbeat'' of
        Some row \<Rightarrow> (Inr (), st)
      | None \<Rightarrow>
          (let data = \<lparr> ch_id = ''heartbeat'', ch_name = ''Heartbeat channel'',
                        ch_tenant_id = DEFAULT_TENANT settings,
                        ch_description = Some ''Sends heartbeats once a minute'',
                        ch_is_open = True, ch_is_private = False, ch_parent_id = None,
                        ch_updated_at = now, ch_updated_by = Some ''Init script'' \<rparr>
           in case insert_row (channels st) (ch_id data) data of
                Inl e \<Rightarrow> (Inl e, st)
              | Inr tbl \<Rightarrow> (Inr (), st\<lparr>channels := tbl\<rparr>)))"

definition get_channel_id :: "state \<Rightarrow> string \<Rightarrow> error + string" where
  "get_channel_id st channel_id =
     (case fetchrow_id (channels st) channel_id of
        None \<Rightarrow> Inl NotFound
      | Some channel \<Rightarrow> Inr channel_id)"

definition list_channels :: "state \<Rightarrow> bool \<Rightarrow> string \<Rightarrow> AuthUser \<Rightarrow> error + Channel list" where
  \<comment> \<open>\<^verbatim>\<open>include_private\<close> is accepted and never read\<close>
  "list_channels st include_private tenant_id user =
     (case get_tenant_id st tenant_id of
        Inl e \<Rightarrow> Inl e
      | Inr tenant \<Rightarrow> Inr (fetch_where (channels st) (\<lambda>d. ch_tenant_id d = tenant)))"

definition truthy :: "string option \<Rightarrow> bool" where
  \<comment> \<open>Python's \<^verbatim>\<open>if x:\<close> on an optional string: neither \<^verbatim>\<open>None\<close> nor empty\<close>
  "truthy x = (case x of None \<Rightarrow> False | Some s \<Rightarrow> s \<noteq> [])"

definition create_channel ::
  "state \<Rightarrow> string \<Rightarrow> ChannelCreate \<Rightarrow> AuthUser \<Rightarrow> string \<Rightarrow> (error + Channel) \<times> state" where
  "create_channel st tenant_id payload user now =
     (case get_tenant_id st tenant_id of
        Inl e \<Rightarrow> (Inl e, st)
      | Inr tenant \<Rightarrow>
          if \<not> id_pattern (cc_id payload) then (Inl ValidationError, st)
          else if \<not> is_tenant_admin tenant (preferred_username user) then (Inl Forbidden, st)
          else if fetchrow_id (channels st) (cc_id payload) \<noteq> None then (Inl Conflict, st)
          else if truthy (cc_parent_id payload)
                  \<and> fetchrow_id (channels st) (the (cc_parent_id payload)) = None
               then (Inl NotFound, st)
          else
            (let data = \<lparr> ch_id = cc_id payload, ch_name = cc_name payload,
                          ch_tenant_id = tenant, ch_description = cc_description payload,
                          ch_is_open = cc_is_open payload, ch_is_private = cc_is_private payload,
                          ch_parent_id = cc_parent_id payload,
                          ch_updated_at = now, ch_updated_by = Some (subject user) \<rparr>
             in case insert_row (channels st) (cc_id payload) data of
                  Inl e \<Rightarrow> (Inl e, st)
                | Inr tbl \<Rightarrow> (Inr data, st\<lparr>channels := tbl\<rparr>)))"

definition delete_channel :: "state \<Rightarrow> string \<Rightarrow> string \<Rightarrow> AuthUser \<Rightarrow> (error + unit) \<times> state" where
  "delete_channel st channel_id tenant_id user =
     (case get_tenant_id st tenant_id of
        Inl e \<Rightarrow> (Inl e, st)
      | Inr tenant \<Rightarrow>
          (case fetchrow_id (channels st) channel_id of
             None \<Rightarrow> (Inl NotFound, st)
           | Some channel \<Rightarrow> (Inr (), st\<lparr>channels := delete_row (channels st) channel_id\<rparr>)))"

section \<open>Subscriptions and device tokens\<close>

record SubscriptionRead =
  sr_id :: string
  sr_tenant_id :: string
  sr_channel_id :: string
  sr_user_id :: string

definition as_SubscriptionRead :: "Subscription \<Rightarrow> SubscriptionRead" where
  \<comment> \<open>\<^verbatim>\<open>response_model=SubscriptionRead\<close>: the fields of the returned object that the
      caller is sent; \<^verbatim>\<open>created_at\<close> is not one of them\<close>
  "as_SubscriptionRead d =
     \<lparr> sr_id = sub_id d, sr_tenant_id = sub_tenant_id d,
       sr_channel_id = sub_channel_id d, sr_user_id = sub_user_id d \<rparr>"

definition get_subscription_tokens :: "state \<Rightarrow> string \<Rightarrow> string \<Rightarrow> string list" where
  "get_subscription_tokens st tenant channel =
     (let rows = fetch_where (subscriptions st)
                   (\<lambda>d. sub_tenant_id d = tenant \<and> sub_channel_id d = channel)
      in if rows = [] then []
         else
           (let user_id_list = map (\<lambda>d. sub_user_id d @ '':'' @ tenant) rows;
                rows' = map snd (filter (\<lambda>(k, d). k \<in> set user_id_list) (tokens st))
            in concat (map tk_device_tokens rows')))"

definition get_user_tokens :: "state \<Rightarrow> string \<Rightarrow> string \<Rightarrow> string list" where
  "get_user_tokens st tenant user_id =
     (case fetchrow_id (tokens st) (user_id @ '':'' @ tenant) of
        None \<Rightarrow> []
      | Some row \<Rightarrow> tk_device_tokens row)"

definition list_of_union :: "string list \<Rightarrow> string list \<Rightarrow> string list" where
  \<comment> \<open>\<^verbatim>\<open>list(existing_tokens | new_tokens)\<close>: the members of the union, each once.
      Python leaves the order open; this is one such order.\<close>
  "list_of_union existing incoming = remdups (existing @ incoming)"

definition save_user_token ::
  "state \<Rightarrow> string list \<Rightarrow> string \<Rightarrow> AuthUser \<Rightarrow> string \<Rightarrow> (error + unit) \<times> state" where
  "save_user_token st device_tokens tenant_id user now =
     (case get_tenant_id st tenant_id of
        Inl e \<Rightarrow> (Inl e, st)
      | Inr tenant \<Rightarrow>
          (let uid = preferred_username user;
               token_id = uid @ '':'' @ tenant;
               data = \<lparr> tk_id = token_id, tk_tenant_id = tenant,
                        tk_device_tokens = device_tokens, tk_updated_at = now \<rparr>
           in case fetchrow_id (tokens st) token_id of
                None \<Rightarrow> (Inr (), st\<lparr>tokens := upsert_row (tokens st) token_id data\<rparr>)
              | Some row \<Rightarrow>
                  if set device_tokens \<subseteq> set (tk_device_tokens row) then (Inr (), st)
                  else
                    (let data' = data\<lparr>tk_device_tokens :=
                                   list_of_union (tk_device_tokens row) device_tokens\<rparr>
                     in (Inr (), st\<lparr>tokens := upsert_row (tokens st) token_id data'\<rparr>))))"

definition list_subscriptions :: "state \<Rightarrow> string \<Rightarrow> AuthUser \<Rightarrow> error + Subscription list" where
  "list_subscriptions st tenant_id user =
     (case get_tenant_id st tenant_id of
        Inl e \<Rightarrow> Inl e
      | Inr tenant \<Rightarrow>
          Inr (fetch_where (subscriptions st)
                 (\<lambda>d. sub_tenant_id d = tenant \<and> sub_user_id d = preferred_username user)))"

definition subscription_key :: "string \<Rightarrow> string \<Rightarrow> string \<Rightarrow> string" where
  \<comment> \<open>the f-string joining uid, an at sign, channel, a colon and tenant\<close>
  "subscription_key uid channel tenant = uid @ ''@'' @ channel @ '':'' @ tenant"

definition subscribe_to_channel ::
  "state \<Rightarrow> string \<Rightarrow> string \<Rightarrow> AuthUser \<Rightarrow> string \<Rightarrow> (error + SubscriptionRead) \<times> state" where
  "subscribe_to_channel st tenant_id channel_id user now =
     (case get_tenant_id st tenant_id of
        Inl e \<Rightarrow> (Inl e, st)
      | Inr tenant \<Rightarrow>
          (case get_channel_id st channel_id of
             Inl e \<Rightarrow> (Inl e, st)
           | Inr channel \<Rightarrow>
               (let uid = preferred_username user;
                    data = \<lparr> sub_id = subscription_key uid channel tenant,
                             sub_tenant_id = tenant, sub_channel_id = channel,
                             sub_user_id = uid, sub_created_at = now \<rparr>
                in (Inr (as_SubscriptionRead data),
                    st\<lparr>subscriptions :=
                         insert_do_nothing (subscriptions st) (sub_id data) data\<rparr>))))"

definition unsubscribe_from_channel ::
  "state \<Rightarrow> string \<Rightarrow> string \<Rightarrow> AuthUser \<Rightarrow> (error + unit) \<times> state" where
  "unsubscribe_from_channel st tenant_id channel_id user =
     (case get_tenant_id st tenant_id of
        Inl e \<Rightarrow> (Inl e, st)
      | Inr tenant \<Rightarrow>
          (case get_channel_id st channel_id of
             Inl e \<Rightarrow> (Inl e, st)
           | Inr channel \<Rightarrow>
               (case fetch_where (subscriptions st)
                       (\<lambda>d. sub_tenant_id d = tenant \<and> sub_channel_id d = channel
                            \<and> sub_user_id d = preferred_username user) of
                  [] \<Rightarrow> (Inl NotFound, st)
                | row # others \<Rightarrow>
                    (Inr (), st\<lparr>subscriptions := delete_row (subscriptions st) (sub_id row)\<rparr>))))"

section \<open>Notifications\<close>

record NotificationCreate =
  nc_channel_ids :: "string list"
  nc_include_child_channels :: bool
  nc_title :: string
  nc_body :: string

record DirectNotificationCreate =
  dn_user_id :: string
  dn_title :: string
  dn_body :: string

definition firebase_send :: "state \<Rightarrow> string list \<Rightarrow> Notification \<Rightarrow> state" where
  \<comment> \<open>one multicast per call with tokens; the provider's answer is dropped\<close>
  "firebase_send st tkns notification =
     (if tkns = [] then st
      else st\<lparr>fcm_sent := fcm_sent st @ [(tkns, ntf_title notification, ntf_body notification)]\<rparr>)"

definition send_notification ::
  "state \<Rightarrow> string \<Rightarrow> string \<Rightarrow> Notification \<Rightarrow> bool \<Rightarrow> (error + unit) \<times> state" where
  "send_notification st tenant channel msg save =
     (let msg_tokens = get_subscription_tokens st tenant channel
      in if msg_tokens \<noteq> [] then
           (let st1 = firebase_send st msg_tokens msg
            in if save then
                 (case insert_row (notifications st1) (ntf_id msg) msg of
                    Inl e \<Rightarrow> (Inl e, st1)
                  | Inr tbl \<Rightarrow> (Inr (), st1\<lparr>notifications := tbl\<rparr>))
               else (Inr (), st1))
         else (Inr (), st))"

definition send_direct_notification ::
  "state \<Rightarrow> string \<Rightarrow> string list \<Rightarrow> Notification \<Rightarrow> bool \<Rightarrow> (error + unit) \<times> state" where
  "send_direct_notification st tenant msg_tokens msg save =
     (if msg_tokens \<noteq> [] then
        (let st1 = firebase_send st msg_tokens msg
         in if save then
              (case insert_row (notifications st1) (ntf_id msg) msg of
                 Inl e \<Rightarrow> (Inl e, st1)
               | Inr tbl \<Rightarrow> (Inr (), st1\<lparr>notifications := tbl\<rparr>))
            else (Inr (), st1))
      else (Inr (), st))"



text \<open>
  \<^verbatim>\<open>Notification(...)\<close> draws its \<^verbatim>\<open>id\<close> from \<^verbatim>\<open>uuid1()\<close> and its \<^verbatim>\<open>sent_at\<close> from
  the clock. Both are inputs here: \<open>fresh i\<close> is the pair drawn for the \<open>i\<close>-th
  notification a request builds.
\<close>

definition new_Notification ::
  "string \<Rightarrow> string \<Rightarrow> string \<Rightarrow> string \<Rightarrow> string \<Rightarrow> string \<times> string \<Rightarrow> Notification" where
  "new_Notification tenant channel title body sent_by drawn =
     \<lparr> ntf_tenant_id = tenant, ntf_channel_id = channel, ntf_title = title, ntf_body = body,
       ntf_sent_by = sent_by, ntf_id = fst drawn, ntf_sent_at = snd drawn \<rparr>"

fun send_each ::
  "string \<Rightarrow> NotificationCreate \<Rightarrow> AuthUser \<Rightarrow> (nat \<Rightarrow> string \<times> string) \<Rightarrow> nat \<Rightarrow>
   string list \<Rightarrow> Notification option \<Rightarrow> state \<Rightarrow> (error + Notification option) \<times> state" where
  "send_each tenant payload user fresh i [] msg st = (Inr msg, st)"
| "send_each tenant payload user fresh i (channel # rest) msg st =
     (let msg' = new_Notification tenant channel (nc_title payload) (nc_body payload)
                   (user_str user) (fresh i)
      in case send_notification st tenant channel msg' True of
           (Inl e, st') \<Rightarrow> (Inl e, st')
         | (Inr u, st') \<Rightarrow> send_each tenant payload user fresh (Suc i) rest (Some msg') st')"

definition send_notifications ::
  "state \<Rightarrow> NotificationCreate \<Rightarrow> string \<Rightarrow> AuthUser \<Rightarrow> (nat \<Rightarrow> string \<times> string) \<Rightarrow>
   (error + Notification) \<times> state" where
  "send_notifications st payload tenant_id user fresh =
     (case get_tenant_id st tenant_id of
        Inl e \<Rightarrow> (Inl e, st)
      | Inr tenant \<Rightarrow>
          if nc_channel_ids payload = [] then (Inl BadRequest, st)
          else if \<not> is_tenant_admin tenant (preferred_username user) then (Inl Forbidden, st)
          else
            (case send_each tenant payload user fresh 0 (nc_channel_ids payload) None st of
               (Inl e, st') \<Rightarrow> (Inl e, st')
             | (Inr None, st') \<Rightarrow> (Inl UnboundLocal, st')
             | (Inr (Some msg), st') \<Rightarrow> (Inr msg, st')))"

definition send_direct_notifications ::
  "state \<Rightarrow> DirectNotificationCreate \<Rightarrow> string \<Rightarrow> AuthUser \<Rightarrow> string \<times> string \<Rightarrow>
   (error + Notification) \<times> state" where
  "send_direct_notifications st payload tenant_id user drawn =
     (case get_tenant_id st tenant_id of
        Inl e \<Rightarrow> (Inl e, st)
      | Inr tenant \<Rightarrow>
          if dn_user_id payload = [] then (Inl BadRequest, st)
          else if \<not> is_tenant_admin tenant (preferred_username user) then (Inl Forbidden, st)
          else
            (let user_tokens = get_user_tokens st tenant (dn_user_id payload)
             in if user_tokens = [] then (Inl PreconditionRequired, st)
                else
                  (let msg = new_Notification tenant (dn_user_id payload) (dn_title payload)
                               (dn_body payload) (user_str user) drawn;
                       st1 = firebase_send st user_tokens msg
                   in case insert_row (notifications st1) (ntf_id msg) msg of
                        Inl e \<Rightarrow> (Inl e, st1)
                      | Inr tbl \<Rightarrow> (Inr msg, st1\<lparr>notifications := tbl\<rparr>))))"

section \<open>Heartbeats\<close>

text \<open>
  \<^verbatim>\<open>heartbeats_loop\<close> is \<^verbatim>\<open>while True\<close>: it never returns unless a send raises. The model
  runs its first \<open>n\<close> rounds; \<open>tick i\<close> is what round \<open>i\<close> draws: the time printed
  in the body, and the notification's id and timestamp.
\<close>

fun heartbeats_loop ::
  "Settings \<Rightarrow> (nat \<Rightarrow> string \<times> string \<times> string) \<Rightarrow> nat \<Rightarrow> nat \<Rightarrow> state \<Rightarrow> (error + unit) \<times> state" where
  "heartbeats_loop settings tick i 0 st = (Inr (), st)"
| "heartbeats_loop settings tick i (Suc n) st =
     (let msg = new_Notification (DEFAULT_TENANT settings) ''heartbeat'' ''HeartBeat''
                  (''Aktuell tid: '' @ fst (tick i)) ''Heartbeat loop'' (snd (tick i))
      in case send_notification st (DEFAULT_TENANT settings) ''heartbeat'' msg False of
           (Inl e, st') \<Rightarrow> (Inl e, st')
         | (Inr u, st') \<Rightarrow> heartbeats_loop settings tick (Suc i) n st')"

section \<open>Derived notions used in the statements\<close>

definition msg_of ::
  "string \<Rightarrow> NotificationCreate \<Rightarrow> AuthUser \<Rightarrow> (nat \<Rightarrow> string \<times> string) \<Rightarrow> nat \<times> string \<Rightarrow>
   Notification" where
  \<comment> \<open>the notification \<open>send_notifications\<close> builds for the \<open>j\<close>-th target \<open>c\<close>\<close>
  "msg_of tenant payload user fresh jc =
     new_Notification tenant (snd jc) (nc_title payload) (nc_body payload) (user_str user)
       (fresh (fst jc))"

definition subscribers_of :: "state \<Rightarrow> string \<Rightarrow> string \<Rightarrow> string set" where
  \<comment> \<open>the users with a subscription row for exactly this channel in this tenant\<close>
  "subscribers_of st tenant channel =
     set (map sub_user_id
            (fetch_where (subscriptions st)
               (\<lambda>d. sub_tenant_id d = tenant \<and> sub_channel_id d = channel)))"

definition no_self_parent :: "Channel table \<Rightarrow> bool" where
  "no_self_parent tbl = list_all (\<lambda>(k, d). ch_parent_id d \<noteq> Some (ch_id d)) tbl"

section \<open>Concrete states\<close>

definition tenant_doc :: "string \<Rightarrow> Tenant" where
  "tenant_doc t =
     \<lparr> tn_id = t, tn_name = t, tn_description = None, tn_default_locale = ''sv'',
       tn_settings = [], tn_admin_roles = [], tn_created_at = ''0'' \<rparr>"

definition channel_doc :: "string \<Rightarrow> string \<Rightarrow> bool \<Rightarrow> string option \<Rightarrow> Channel" where
  "channel_doc c t private parent =
     \<lparr> ch_id = c, ch_name = c, ch_tenant_id = t, ch_description = None, ch_is_open = True,
       ch_is_private = private, ch_parent_id = parent, ch_updated_at = ''0'',
       ch_updated_by = None \<rparr>"

definition subscription_row :: "string \<Rightarrow> string \<Rightarrow> string \<Rightarrow> string \<times> Subscription" where
  "subscription_row u c t =
     (subscription_key u c t,
      \<lparr> sub_id = subscription_key u c t, sub_tenant_id = t, sub_channel_id = c,
        sub_user_id = u, sub_created_at = ''0'' \<rparr>)"

definition tokens_row :: "string \<Rightarrow> string \<Rightarrow> string list \<Rightarrow> string \<times> Tokens" where
  "tokens_row u t tks =
     (u @ '':'' @ t,
      \<lparr> tk_id = u @ '':'' @ t, tk_tenant_id = t, tk_device_tokens = tks,
        tk_updated_at = ''0'' \<rparr>)"

definition empty_state :: state where
  "empty_state =
     \<lparr> tenants = [], channels = [], subscriptions = [], tokens = [], notifications = [],
       fcm_sent = [] \<rparr>"

definition admin :: AuthUser where
  "admin = \<lparr> preferred_username = ''admin'', subject = ''admin-sub'', user_str = ''admin'' \<rparr>"

definition alice :: AuthUser where
  "alice = \<lparr> preferred_username = ''alice'', subject = ''alice-sub'', user_str = ''alice'' \<rparr>"

definition fresh_ids :: "nat \<Rightarrow> string \<times> string" where
  \<comment> \<open>ids \<open>n\<close>, \<open>nn\<close>, ... with timestamps \<open>1\<close>, \<open>11\<close>, ...\<close>
  "fresh_ids i = (replicate (Suc i) CHR ''n'', replicate (Suc i) CHR ''1'')"

definition st_quiet :: state where
  \<comment> \<open>tenant \<open>t\<close> with channel \<open>c\<close> and nobody subscribed\<close>
  "st_quiet = empty_state\<lparr> tenants := [(''t'', tenant_doc ''t'')],
                            channels := [(''c'', channel_doc ''c'' ''t'' False None)] \<rparr>"

definition notice :: "string list \<Rightarrow> bool \<Rightarrow> NotificationCreate" where
  "notice cs children =
     \<lparr> nc_channel_ids = cs, nc_include_child_channels = children, nc_title = ''T'',
       nc_body = ''B'' \<rparr>"

definition st_tree :: state where
  \<comment> \<open>channels \<open>a\<close>, its child \<open>b\<close>, and \<open>b\<close>'s child \<open>c\<close>; alice follows \<open>c\<close> only,
      bob follows \<open>a\<close> and \<open>b\<close>\<close>
  "st_tree = empty_state\<lparr>
     tenants := [(''t'', tenant_doc ''t'')],
     channels := [(''a'', channel_doc ''a'' ''t'' False None),
                  (''b'', channel_doc ''b'' ''t'' False (Some ''a'')),
                  (''c'', channel_doc ''c'' ''t'' False (Some ''b''))],
     subscriptions := [subscription_row ''alice'' ''c'' ''t'', subscription_row ''bob'' ''a'' ''t'',
                       subscription_row ''bob'' ''b'' ''t''],
     tokens := [tokens_row ''alice'' ''t'' [''tok-alice''], tokens_row ''bob'' ''t'' [''tok-bob'']] \<rparr>"

definition st_c10 :: state where
  "st_c10 = empty_state\<lparr> tenants := [(''t'', tenant_doc ''t'')],
                          channels := [(''a'', channel_doc ''a'' ''t'' False None)] \<rparr>"

definition payload_c10 :: ChannelCreate where
  "payload_c10 =
     \<lparr> cc_id = ''b'', cc_name = ''B'', cc_description = None, cc_is_open = True,
       cc_is_private = False, cc_parent_id = Some ''a'' \<rparr>"

definition st_private :: state where
  \<comment> \<open>tenant \<open>t\<close> with an ordinary channel and a private one\<close>
  "st_private = empty_state\<lparr>
     tenants := [(''t'', tenant_doc ''t'')],
     channels := [(''pub'', channel_doc ''pub'' ''t'' False None),
                  (''secret'', channel_doc ''secret'' ''t'' True None)] \<rparr>"

definition st_unregistered :: state where
  \<comment> \<open>tenant \<open>t\<close>; dave has a token record without tokens, carol has none\<close>
  "st_unregistered = empty_state\<lparr>
     tenants := [(''t'', tenant_doc ''t'')],
     tokens := [tokens_row ''dave'' ''t'' []] \<rparr>"

definition direct :: "string \<Rightarrow> DirectNotificationCreate" where
  "direct u = \<lparr> dn_user_id = u, dn_title = ''T'', dn_body = ''B'' \<rparr>"

definition ledger_wf :: "Subscription table \<Rightarrow> bool" where
  \<comment> \<open>every row sits under the key built from its own fields, as \<open>subscribe_to_channel\<close>
      writes it, and its channel and tenant ids fit the id pattern\<close>
  "ledger_wf tbl =
     list_all (\<lambda>(k, d). k = subscription_key (sub_user_id d) (sub_channel_id d) (sub_tenant_id d)
                        \<and> sub_id d = k
                        \<and> id_pattern (sub_channel_id d) \<and> id_pattern (sub_tenant_id d)) tbl"





section \<open>Facts about the store and the send loop\<close>

lemmas example_defs =
  tenant_doc_def channel_doc_def subscription_row_def tokens_row_def empty_state_def admin_def
  alice_def fresh_ids_def notice_def subscription_key_def direct_def

lemmas store_defs =
  has_key_def fetchrow_id_def fetch_where_def insert_row_def insert_do_nothing_def
  upsert_row_def delete_row_def

lemma has_key_append: "has_key (tbl @ [(k, d)]) k' = (has_key tbl k' \<or> k' = k)"
  by (auto simp: has_key_def)

lemma get_subscription_tokens_frame:
  "subscriptions st' = subscriptions st \<Longrightarrow> tokens st' = tokens st \<Longrightarrow>
   get_subscription_tokens st' tenant channel = get_subscription_tokens st tenant channel"
  by (simp add: get_subscription_tokens_def Let_def)

lemma send_notification_unfold:
  "send_notification st tenant channel msg save =
     (let tks = get_subscription_tokens st tenant channel;
          st1 = st\<lparr>fcm_sent := fcm_sent st @ [(tks, ntf_title msg, ntf_body msg)]\<rparr>
      in if tks = [] then (Inr (), st)
         else if \<not> save then (Inr (), st1)
         else if has_key (notifications st) (ntf_id msg) then (Inl UniqueViolation, st1)
         else (Inr (), st1\<lparr>notifications := notifications st @ [(ntf_id msg, msg)]\<rparr>))"
  by (simp add: send_notification_def firebase_send_def insert_row_def Let_def)

lemma send_each_fresh:
  assumes "distinct (map (\<lambda>j. fst (fresh j)) [i..<i + length cs])"
      and "\<And>j. i \<le> j \<Longrightarrow> j < i + length cs \<Longrightarrow> \<not> has_key (notifications st) (fst (fresh j))"
  shows "send_each tenant payload user fresh i cs msg st =
     (Inr (if cs = [] then msg
           else Some (msg_of tenant payload user fresh (i + length cs - 1, last cs))),
      st\<lparr>fcm_sent := fcm_sent st @
             map (\<lambda>c. (get_subscription_tokens st tenant c, nc_title payload, nc_body payload))
               (filter (\<lambda>c. get_subscription_tokens st tenant c \<noteq> []) cs),
          notifications := notifications st @
             map (\<lambda>jc. (fst (fresh (fst jc)), msg_of tenant payload user fresh jc))
               (filter (\<lambda>jc. get_subscription_tokens st tenant (snd jc) \<noteq> [])
                  (enumerate i cs))\<rparr>)"
  using assms
proof (induction cs arbitrary: i msg st)
  case Nil
  then show ?case by simp
next
  case (Cons c rest)
  let ?m = "new_Notification tenant c (nc_title payload) (nc_body payload) (user_str user)
              (fresh i)"
  have idm: "ntf_id ?m = fst (fresh i)" "ntf_title ?m = nc_title payload"
    "ntf_body ?m = nc_body payload"
    by (simp_all add: new_Notification_def)
  have nokey: "\<not> has_key (notifications st) (fst (fresh i))"
    using Cons.prems(2)[of i] by simp
  have dist: "distinct (map (\<lambda>j. fst (fresh j)) [Suc i..<Suc i + length rest])"
    and notin: "\<And>j. Suc i \<le> j \<Longrightarrow> j < Suc i + length rest \<Longrightarrow> fst (fresh j) \<noteq> fst (fresh i)"
  proof -
    have "[i..<i + length (c # rest)] = i # [Suc i..<Suc i + length rest]"
      by (simp add: upt_conv_Cons del: upt_Suc)
    with Cons.prems(1)
    have d: "fst (fresh i) \<notin> (\<lambda>j. fst (fresh j)) ` set [Suc i..<Suc i + length rest]"
      and "distinct (map (\<lambda>j. fst (fresh j)) [Suc i..<Suc i + length rest])"
      by (simp_all del: upt_Suc)
    then show "distinct (map (\<lambda>j. fst (fresh j)) [Suc i..<Suc i + length rest])" by simp
    fix j assume "Suc i \<le> j" "j < Suc i + length rest"
    then have "j \<in> set [Suc i..<Suc i + length rest]" by (simp del: upt_Suc)
    then have "fst (fresh j) \<in> (\<lambda>j. fst (fresh j)) ` set [Suc i..<Suc i + length rest]"
      by (rule imageI)
    with d show "fst (fresh j) \<noteq> fst (fresh i)" by metis
  qed
  obtain st' where step: "send_notification st tenant c ?m True = (Inr (), st')"
    and frame: "subscriptions st' = subscriptions st" "tokens st' = tokens st"
    and pushes: "fcm_sent st' = fcm_sent st @
        (if get_subscription_tokens st tenant c = [] then []
         else [(get_subscription_tokens st tenant c, nc_title payload, nc_body payload)])"
    and recs: "notifications st' = notifications st @
        (if get_subscription_tokens st tenant c = [] then [] else [(fst (fresh i), ?m)])"
    and rest_eq: "st' = st\<lparr>fcm_sent := fcm_sent st', notifications := notifications st'\<rparr>"
    using nokey idm by (auto simp: send_notification_unfold Let_def)
  have toks: "\<And>x. get_subscription_tokens st' tenant x = get_subscription_tokens st tenant x"
    using frame by (rule get_subscription_tokens_frame)
  have fresh': "\<And>j. Suc i \<le> j \<Longrightarrow> j < Suc i + length rest \<Longrightarrow>
                  \<not> has_key (notifications st') (fst (fresh j))"
    using Cons.prems(2) notin recs by (auto simp: has_key_append)
  have IH: "send_each tenant payload user fresh (Suc i) rest (Some ?m) st' =
     (Inr (if rest = [] then Some ?m
           else Some (msg_of tenant payload user fresh (Suc i + length rest - 1, last rest))),
      st'\<lparr>fcm_sent := fcm_sent st' @
             map (\<lambda>c. (get_subscription_tokens st' tenant c, nc_title payload, nc_body payload))
               (filter (\<lambda>c. get_subscription_tokens st' tenant c \<noteq> []) rest),
          notifications := notifications st' @
             map (\<lambda>jc. (fst (fresh (fst jc)), msg_of tenant payload user fresh jc))
               (filter (\<lambda>jc. get_subscription_tokens st' tenant (snd jc) \<noteq> [])
                  (enumerate (Suc i) rest))\<rparr>)"
    by (rule Cons.IH[OF dist fresh'])
  show ?case
    apply (simp only: send_each.simps Let_def step prod.case sum.case IH toks)
    apply (subst (3) rest_eq)
    apply (simp add: pushes recs msg_of_def)
    done
qed

lemma send_notifications_fresh:
  assumes tenant: "fetchrow_id (tenants st) tenant \<noteq> None"
      and targets: "nc_channel_ids payload \<noteq> []"
      and distinct_ids: "distinct (map (\<lambda>j. fst (fresh j)) [0..<length (nc_channel_ids payload)])"
      and unused_ids: "\<forall>j < length (nc_channel_ids payload).
                         \<not> has_key (notifications st) (fst (fresh j))"
  shows "send_notifications st payload tenant user fresh =
     (Inr (msg_of tenant payload user fresh
             (length (nc_channel_ids payload) - 1, last (nc_channel_ids payload))),
      st\<lparr>fcm_sent := fcm_sent st @
             map (\<lambda>c. (get_subscription_tokens st tenant c, nc_title payload, nc_body payload))
               (filter (\<lambda>c. get_subscription_tokens st tenant c \<noteq> []) (nc_channel_ids payload)),
          notifications := notifications st @
             map (\<lambda>jc. (fst (fresh (fst jc)), msg_of tenant payload user fresh jc))
               (filter (\<lambda>jc. get_subscription_tokens st tenant (snd jc) \<noteq> [])
                  (enumerate 0 (nc_channel_ids payload)))\<rparr>)"
proof -
  have d: "distinct (map (\<lambda>j. fst (fresh j)) [0..<0 + length (nc_channel_ids payload)])"
    using distinct_ids by simp
  have u: "\<And>j. 0 \<le> j \<Longrightarrow> j < 0 + length (nc_channel_ids payload) \<Longrightarrow>
             \<not> has_key (notifications st) (fst (fresh j))"
    using unused_ids by simp
  show ?thesis
    using tenant targets
    by (auto simp: send_notifications_def get_tenant_id_def is_tenant_admin_def
          send_each_fresh[OF d u])
qed

section \<open>Channel creation\<close>

text \<open>
  Claim C10. A channel is never created as its own parent. A successful
  \<open>create_channel\<close> has found no row under the new id, and, when a parent id is given
  and non-empty, a row under the parent id; the id itself is non-empty by its field
  pattern, so an empty parent id is not the id either. Hence the created document has
  \<open>parent_id \<noteq> id\<close>, it is the one row appended to the table, and a table without
  self-parented rows stays so.
\<close>

theorem create_channel_no_self_parent:
  assumes "create_channel st tenant_id payload user now = (Inr ch, st')"
  shows "ch_parent_id ch \<noteq> Some (ch_id ch)
       \<and> ch_id ch = cc_id payload \<and> ch_parent_id ch = cc_parent_id payload
       \<and> fetchrow_id (channels st) (ch_id ch) = None
       \<and> (truthy (ch_parent_id ch) \<longrightarrow>
            fetchrow_id (channels st) (the (ch_parent_id ch)) \<noteq> None)
       \<and> channels st' = channels st @ [(ch_id ch, ch)]
       \<and> (no_self_parent (channels st) \<longrightarrow> no_self_parent (channels st'))"
proof -
  from assms have ok: "id_pattern (cc_id payload)"
    and absent: "fetchrow_id (channels st) (cc_id payload) = None"
    and parent: "truthy (cc_parent_id payload) \<longrightarrow>
                 fetchrow_id (channels st) (the (cc_parent_id payload)) \<noteq> None"
    by (auto simp: create_channel_def Let_def split: sum.splits if_splits)
  from assms have fields: "ch_id ch = cc_id payload" "ch_parent_id ch = cc_parent_id payload"
    and tbl: "channels st' = channels st @ [(ch_id ch, ch)]"
    by (auto simp: create_channel_def Let_def insert_row_def split: sum.splits if_splits)
  have nonempty: "cc_id payload \<noteq> []"
    using ok by (simp add: id_pattern_def)
  have other: "cc_parent_id payload \<noteq> Some (cc_id payload)"
  proof
    assume eq: "cc_parent_id payload = Some (cc_id payload)"
    then have "truthy (cc_parent_id payload)"
      using nonempty by (simp add: truthy_def)
    with parent eq absent show False by simp
  qed
  show ?thesis
    using fields tbl absent parent other by (simp add: no_self_parent_def)
qed

theorem create_channel_no_self_parent_witness:
  "create_channel st_c10 ''t'' payload_c10 admin ''1''
     = (Inr (channel_doc ''b'' ''t'' False (Some ''a'')
              \<lparr>ch_name := ''B'', ch_updated_at := ''1'', ch_updated_by := Some ''admin-sub''\<rparr>),
        st_c10\<lparr>channels := channels st_c10 @
           [(''b'', channel_doc ''b'' ''t'' False (Some ''a'')
              \<lparr>ch_name := ''B'', ch_updated_at := ''1'', ch_updated_by := Some ''admin-sub''\<rparr>)]\<rparr>)
   \<and> no_self_parent (channels st_c10)
   \<and> no_self_parent
       (channels (snd (create_channel st_c10 ''t'' payload_c10 admin ''1'')))"
proof -
  let ?ch = "channel_doc ''b'' ''t'' False (Some ''a'')
              \<lparr>ch_name := ''B'', ch_updated_at := ''1'', ch_updated_by := Some ''admin-sub''\<rparr>"
  let ?st = "st_c10\<lparr>channels := channels st_c10 @ [(''b'', ?ch)]\<rparr>"
  have run: "create_channel st_c10 ''t'' payload_c10 admin ''1'' = (Inr ?ch, ?st)"
    by (simp add: create_channel_def st_c10_def payload_c10_def example_defs store_defs
          get_tenant_id_def id_pattern_def id_char_def is_tenant_admin_def truthy_def Let_def)
  have before: "no_self_parent (channels st_c10)"
    by (simp add: no_self_parent_def st_c10_def example_defs)
  from create_channel_no_self_parent[OF run] before
  have "no_self_parent (channels ?st)" by blast
  with run before show ?thesis by simp
qed

lemma get_subscription_tokens_channels:
  "get_subscription_tokens (st\<lparr>channels := X\<rparr>) tenant channel
     = get_subscription_tokens st tenant channel"
  by (simp add: get_subscription_tokens_def Let_def)

lemma send_notification_channels:
  "send_notification (st\<lparr>channels := X\<rparr>) tenant channel msg save =
     (fst (send_notification st tenant channel msg save),
      (snd (send_notification st tenant channel msg save))\<lparr>channels := X\<rparr>)"
  by (simp add: send_notification_unfold get_subscription_tokens_channels Let_def)

lemma send_each_channels:
  "send_each tenant payload user fresh i cs msg (st\<lparr>channels := X\<rparr>) =
     (fst (send_each tenant payload user fresh i cs msg st),
      (snd (send_each tenant payload user fresh i cs msg st))\<lparr>channels := X\<rparr>)"
proof (induction cs arbitrary: i msg st)
  case Nil
  then show ?case by simp
next
  case (Cons c rest)
  show ?case
    by (simp add: send_notification_channels Cons.IH Let_def split: prod.splits sum.splits)
qed

lemma send_notification_error:
  "fst (send_notification st tenant channel msg save) = Inl e \<Longrightarrow> e = UniqueViolation"
  by (auto simp: send_notification_unfold Let_def split: if_splits)

lemma send_each_error:
  "fst (send_each tenant payload user fresh i cs msg st) = Inl e \<Longrightarrow> e = UniqueViolation"
proof (induction cs arbitrary: i msg st)
  case Nil
  then show ?case by simp
next
  case (Cons c rest)
  let ?m = "new_Notification tenant c (nc_title payload) (nc_body payload) (user_str user) (fresh i)"
  obtain r st' where step: "send_notification st tenant c ?m True = (r, st')"
    by (cases "send_notification st tenant c ?m True")
  show ?case
  proof (cases r)
    case (Inl e')
    with step Cons.prems have "e = e'" by (simp add: Let_def)
    moreover from step Inl have "e' = UniqueViolation"
      using send_notification_error[of st tenant c ?m True e'] by simp
    ultimately show ?thesis by simp
  next
    case (Inr u)
    with step Cons.prems
    have "fst (send_each tenant payload user fresh (Suc i) rest (Some ?m) st') = Inl e"
      by (simp add: Let_def)
    then show ?thesis by (rule Cons.IH)
  qed
qed

lemma heartbeats_loop_notifications:
  "notifications (snd (heartbeats_loop settings tick i n st)) = notifications st"
proof (induction n arbitrary: i st)
  case 0
  then show ?case by simp
next
  case (Suc n)
  let ?m = "new_Notification (DEFAULT_TENANT settings) ''heartbeat'' ''HeartBeat''
                  (''Aktuell tid: '' @ fst (tick i)) ''Heartbeat loop'' (snd (tick i))"
  have one: "notifications (snd (send_notification st (DEFAULT_TENANT settings) ''heartbeat'' ?m False))
             = notifications st"
    by (simp add: send_notification_unfold Let_def)
  show ?case
    using one Suc.IH
    by (auto simp: Let_def split: prod.splits sum.splits)
qed


section \<open>Channel-addressed sends\<close>

text \<open>
  Claim C1, as stated, fails: a target whose subscribers have no device token gets no
  record, although the send is persistent.
\<close>

theorem send_without_tokens_writes_no_record:
  "get_channel_id st_quiet ''c'' = Inr ''c''
   \<and> get_subscription_tokens st_quiet ''t'' ''c'' = []
   \<and> send_notifications st_quiet (notice [''c''] True) ''t'' admin fresh_ids
       = (Inr (msg_of ''t'' (notice [''c''] True) admin fresh_ids (0, ''c'')), st_quiet)
   \<and> notifications (snd (send_notifications st_quiet (notice [''c''] True) ''t'' admin fresh_ids))
       = []"
  by (simp add: send_notifications_def send_notification_def get_subscription_tokens_def
        get_channel_id_def get_tenant_id_def is_tenant_admin_def st_quiet_def msg_of_def
        example_defs store_defs Let_def)

text \<open>
  Claim C1, amended. With an existing tenant and record ids that are new and pairwise
  different, a channel-addressed send appends exactly one record for each entry of the
  target list whose resolved token list is non-empty, in target order, and none for an
  entry whose token list is empty. A single \<open>send_notification\<close> with \<open>save\<close> set
  and an unused id appends its record exactly when the token list is non-empty. With
  \<open>save\<close> unset, as in every round of the heartbeat loop, the table of records is
  left as it was.
\<close>

theorem channel_send_records:
  assumes tenant: "fetchrow_id (tenants st) tenant \<noteq> None"
      and distinct_ids: "distinct (map (\<lambda>j. fst (fresh j)) [0..<length (nc_channel_ids payload)])"
      and unused_ids: "\<forall>j < length (nc_channel_ids payload).
                         \<not> has_key (notifications st) (fst (fresh j))"
  shows "notifications (snd (send_notifications st payload tenant user fresh))
           = notifications st @
               map (\<lambda>jc. (fst (fresh (fst jc)), msg_of tenant payload user fresh jc))
                 (filter (\<lambda>jc. get_subscription_tokens st tenant (snd jc) \<noteq> [])
                    (enumerate 0 (nc_channel_ids payload)))
       \<and> (\<not> has_key (notifications st) (ntf_id msg) \<longrightarrow>
            notifications (snd (send_notification st tenant channel msg True))
              = notifications st @
                  (if get_subscription_tokens st tenant channel = [] then []
                   else [(ntf_id msg, msg)]))
       \<and> notifications (snd (send_notification st tenant channel msg False)) = notifications st
       \<and> notifications (snd (heartbeats_loop settings tick i n st)) = notifications st"
proof -
  have many: "notifications (snd (send_notifications st payload tenant user fresh))
           = notifications st @
               map (\<lambda>jc. (fst (fresh (fst jc)), msg_of tenant payload user fresh jc))
                 (filter (\<lambda>jc. get_subscription_tokens st tenant (snd jc) \<noteq> [])
                    (enumerate 0 (nc_channel_ids payload)))"
  proof (cases "nc_channel_ids payload = []")
    case True
    then show ?thesis
      using tenant by (simp add: send_notifications_def get_tenant_id_def split: option.splits)
  next
    case False
    show ?thesis
      by (simp add: send_notifications_fresh[OF tenant False distinct_ids unused_ids])
  qed
  have one: "\<not> has_key (notifications st) (ntf_id msg) \<longrightarrow>
            notifications (snd (send_notification st tenant channel msg True))
              = notifications st @
                  (if get_subscription_tokens st tenant channel = [] then []
                   else [(ntf_id msg, msg)])"
    by (simp add: send_notification_unfold Let_def)
  have off: "notifications (snd (send_notification st tenant channel msg False)) = notifications st"
    by (simp add: send_notification_unfold Let_def)
  show ?thesis
    using many one off heartbeats_loop_notifications by blast
qed

theorem channel_send_records_witness:
  "fetchrow_id (tenants st_tree) ''t'' \<noteq> None
   \<and> distinct (map (\<lambda>j. fst (fresh_ids j)) [0..<length [''a'', ''quiet'', ''c'']])
   \<and> get_subscription_tokens st_tree ''t'' ''quiet'' = []
   \<and> map fst (notifications
        (snd (send_notifications st_tree (notice [''a'', ''quiet'', ''c''] True) ''t'' admin
                fresh_ids)))
       = [''n'', ''nnn'']
   \<and> map (ntf_channel_id \<circ> snd) (notifications
        (snd (send_notifications st_tree (notice [''a'', ''quiet'', ''c''] True) ''t'' admin
                fresh_ids)))
       = [''a'', ''c'']"
proof -
  let ?p = "notice [''a'', ''quiet'', ''c''] True"
  have cs: "nc_channel_ids ?p = [''a'', ''quiet'', ''c'']"
    by (simp add: notice_def)
  have t: "fetchrow_id (tenants st_tree) ''t'' \<noteq> None"
    by (simp add: st_tree_def example_defs store_defs)
  have d: "distinct (map (\<lambda>j. fst (fresh_ids j)) [0..<length (nc_channel_ids ?p)])"
    by (simp add: cs fresh_ids_def upt_rec)
  have u: "\<forall>j < length (nc_channel_ids ?p).
             \<not> has_key (notifications st_tree) (fst (fresh_ids j))"
    by (simp add: st_tree_def example_defs store_defs)
  have tk: "get_subscription_tokens st_tree ''t'' ''a'' = [''tok-bob'']"
    "get_subscription_tokens st_tree ''t'' ''quiet'' = []"
    "get_subscription_tokens st_tree ''t'' ''c'' = [''tok-alice'']"
    by (simp_all add: get_subscription_tokens_def st_tree_def example_defs store_defs Let_def)
  have empty: "notifications st_tree = []"
    by (simp add: st_tree_def example_defs)
  from channel_send_records[OF t d u, of admin]
  have "notifications (snd (send_notifications st_tree ?p ''t'' admin fresh_ids))
          = notifications st_tree @
               map (\<lambda>jc. (fst (fresh_ids (fst jc)), msg_of ''t'' ?p admin fresh_ids jc))
                 (filter (\<lambda>jc. get_subscription_tokens st_tree ''t'' (snd jc) \<noteq> [])
                    (enumerate 0 (nc_channel_ids ?p)))"
    by blast
  then have "notifications (snd (send_notifications st_tree ?p ''t'' admin fresh_ids))
          = [(''n'', msg_of ''t'' ?p admin fresh_ids (0, ''a'')),
             (''nnn'', msg_of ''t'' ?p admin fresh_ids (2, ''c''))]"
    by (simp add: cs tk empty fresh_ids_def numeral_2_eq_2)
  then show ?thesis
    using t d tk(2) by (simp add: cs msg_of_def new_Notification_def)
qed


text \<open>
  Claim C2, as stated, fails: a target list naming a channel that does not exist is
  accepted; the send succeeds, the other targets are pushed to and recorded.
\<close>

theorem send_to_missing_channel_succeeds:
  "get_channel_id st_tree ''missing'' = Inl NotFound
   \<and> fst (send_notifications st_tree (notice [''a'', ''missing''] True) ''t'' admin fresh_ids)
       = Inr (msg_of ''t'' (notice [''a'', ''missing''] True) admin fresh_ids (1, ''missing''))
   \<and> fcm_sent (snd (send_notifications st_tree (notice [''a'', ''missing''] True) ''t'' admin
                      fresh_ids))
       = [([''tok-bob''], ''T'', ''B'')]
   \<and> notifications (snd (send_notifications st_tree (notice [''a'', ''missing''] True) ''t''
                           admin fresh_ids))
       = [(''n'', msg_of ''t'' (notice [''a'', ''missing''] True) admin fresh_ids (0, ''a''))]"
  by (simp add: send_notifications_def send_notification_def firebase_send_def
        get_subscription_tokens_def get_channel_id_def get_tenant_id_def is_tenant_admin_def
        st_tree_def msg_of_def new_Notification_def example_defs store_defs Let_def)

text \<open>
  Claim C2, amended. A channel-addressed send never looks at the channel table. For an
  existing tenant it never fails with \<open>NotFound\<close>, and its result and its effects are
  the same whatever the channel table holds. A target without subscription rows in the
  tenant, as a channel that does not exist and has left none behind, resolves to no
  token. With a non-empty target list and record ids that are new and pairwise
  different the send succeeds, returns the notification built for the last target, and
  changes the state in exactly this way: in target order, one batch is handed to the
  provider and one record is appended for each target that resolves to a non-empty token
  list, and nothing is pushed or recorded for a target that resolves to none.
\<close>

theorem channel_send_without_channel_lookup:
  assumes tenant: "fetchrow_id (tenants st) tenant \<noteq> None"
  shows "fst (send_notifications st payload tenant user fresh) \<noteq> Inl NotFound
       \<and> send_notifications (st\<lparr>channels := chans\<rparr>) payload tenant user fresh
           = (fst (send_notifications st payload tenant user fresh),
              (snd (send_notifications st payload tenant user fresh))\<lparr>channels := chans\<rparr>)
       \<and> (fetch_where (subscriptions st)
             (\<lambda>d. sub_tenant_id d = tenant \<and> sub_channel_id d = channel) = []
          \<longrightarrow> get_subscription_tokens st tenant channel = [])
       \<and> (nc_channel_ids payload \<noteq> []
            \<and> distinct (map (\<lambda>j. fst (fresh j)) [0..<length (nc_channel_ids payload)])
            \<and> (\<forall>j < length (nc_channel_ids payload).
                  \<not> has_key (notifications st) (fst (fresh j)))
          \<longrightarrow> send_notifications st payload tenant user fresh
                = (Inr (msg_of tenant payload user fresh
                          (length (nc_channel_ids payload) - 1, last (nc_channel_ids payload))),
                   st\<lparr>fcm_sent := fcm_sent st @
                          map (\<lambda>c. (get_subscription_tokens st tenant c, nc_title payload,
                                     nc_body payload))
                            (filter (\<lambda>c. get_subscription_tokens st tenant c \<noteq> [])
                               (nc_channel_ids payload)),
                       notifications := notifications st @
                          map (\<lambda>jc. (fst (fresh (fst jc)), msg_of tenant payload user fresh jc))
                            (filter (\<lambda>jc. get_subscription_tokens st tenant (snd jc) \<noteq> [])
                               (enumerate 0 (nc_channel_ids payload)))\<rparr>))"
proof -
  obtain r st' where loop:
    "send_each tenant payload user fresh 0 (nc_channel_ids payload) None st = (r, st')"
    by (cases "send_each tenant payload user fresh 0 (nc_channel_ids payload) None st")
  have err: "r \<noteq> Inl NotFound"
    using send_each_error[of tenant payload user fresh 0 "nc_channel_ids payload" None st NotFound]
      loop by auto
  have a: "fst (send_notifications st payload tenant user fresh) \<noteq> Inl NotFound"
    using tenant loop err
    by (auto simp: send_notifications_def get_tenant_id_def is_tenant_admin_def
          split: option.splits sum.splits)
  have b: "send_notifications (st\<lparr>channels := chans\<rparr>) payload tenant user fresh
           = (fst (send_notifications st payload tenant user fresh),
              (snd (send_notifications st payload tenant user fresh))\<lparr>channels := chans\<rparr>)"
    using tenant loop
    by (auto simp: send_notifications_def get_tenant_id_def is_tenant_admin_def
          send_each_channels split: option.splits sum.splits)
  have quiet: "fetch_where (subscriptions st)
             (\<lambda>d. sub_tenant_id d = tenant \<and> sub_channel_id d = channel) = []
          \<longrightarrow> get_subscription_tokens st tenant channel = []"
    by (simp add: get_subscription_tokens_def)
  have c: "nc_channel_ids payload \<noteq> []
            \<and> distinct (map (\<lambda>j. fst (fresh j)) [0..<length (nc_channel_ids payload)])
            \<and> (\<forall>j < length (nc_channel_ids payload).
                  \<not> has_key (notifications st) (fst (fresh j)))
          \<longrightarrow> send_notifications st payload tenant user fresh
                = (Inr (msg_of tenant payload user fresh
                          (length (nc_channel_ids payload) - 1, last (nc_channel_ids payload))),
                   st\<lparr>fcm_sent := fcm_sent st @
                          map (\<lambda>c. (get_subscription_tokens st tenant c, nc_title payload,
                                     nc_body payload))
                            (filter (\<lambda>c. get_subscription_tokens st tenant c \<noteq> [])
                               (nc_channel_ids payload)),
                       notifications := notifications st @
                          map (\<lambda>jc. (fst (fresh (fst jc)), msg_of tenant payload user fresh jc))
                            (filter (\<lambda>jc. get_subscription_tokens st tenant (snd jc) \<noteq> [])
                               (enumerate 0 (nc_channel_ids payload)))\<rparr>)"
    using send_notifications_fresh[OF tenant, of payload fresh user] by blast
  show ?thesis using a b quiet c by blast
qed

theorem channel_send_without_channel_lookup_witness:
  "fetchrow_id (tenants st_tree) ''t'' \<noteq> None
   \<and> get_channel_id st_tree ''missing'' = Inl NotFound
   \<and> get_subscription_tokens st_tree ''t'' ''missing'' = []
   \<and> send_notifications st_tree (notice [''missing'', ''a''] True) ''t'' admin fresh_ids
       = (Inr (msg_of ''t'' (notice [''missing'', ''a''] True) admin fresh_ids (1, ''a'')),
          st_tree\<lparr>fcm_sent := [([''tok-bob''], ''T'', ''B'')],
                  notifications :=
                    [(''nn'', msg_of ''t'' (notice [''missing'', ''a''] True) admin fresh_ids
                               (1, ''a''))]\<rparr>)
   \<and> fcm_sent (snd (send_notifications (st_tree\<lparr>channels := []\<rparr>)
                      (notice [''missing'', ''a''] True) ''t'' admin fresh_ids))
       = [([''tok-bob''], ''T'', ''B'')]"
proof -
  let ?p = "notice [''missing'', ''a''] True"
  have cs: "nc_channel_ids ?p = [''missing'', ''a'']" "nc_title ?p = ''T''" "nc_body ?p = ''B''"
    by (simp_all add: notice_def)
  have t: "fetchrow_id (tenants st_tree) ''t'' \<noteq> None"
    by (simp add: st_tree_def example_defs store_defs)
  have gone: "get_channel_id st_tree ''missing'' = Inl NotFound"
    by (simp add: get_channel_id_def st_tree_def example_defs store_defs)
  have norows: "fetch_where (subscriptions st_tree)
                  (\<lambda>d. sub_tenant_id d = ''t'' \<and> sub_channel_id d = ''missing'') = []"
    by (simp add: st_tree_def example_defs store_defs)
  have tk: "get_subscription_tokens st_tree ''t'' ''a'' = [''tok-bob'']"
    by (simp add: get_subscription_tokens_def st_tree_def example_defs store_defs Let_def)
  have before: "fcm_sent st_tree = []" "notifications st_tree = []"
    by (simp_all add: st_tree_def example_defs)
  have targets: "nc_channel_ids ?p \<noteq> []"
    by (simp add: cs)
  have d: "distinct (map (\<lambda>j. fst (fresh_ids j)) [0..<length (nc_channel_ids ?p)])"
    by (simp add: cs fresh_ids_def upt_rec)
  have u: "\<forall>j < length (nc_channel_ids ?p).
             \<not> has_key (notifications st_tree) (fst (fresh_ids j))"
    by (simp add: before has_key_def)
  note T = channel_send_without_channel_lookup[OF t, of ?p admin fresh_ids "[]" "''missing''"]
  from T norows have quiet: "get_subscription_tokens st_tree ''t'' ''missing'' = []"
    by blast
  from T targets d u
  have "send_notifications st_tree ?p ''t'' admin fresh_ids
          = (Inr (msg_of ''t'' ?p admin fresh_ids
                    (length (nc_channel_ids ?p) - 1, last (nc_channel_ids ?p))),
             st_tree\<lparr>fcm_sent := fcm_sent st_tree @
                    map (\<lambda>c. (get_subscription_tokens st_tree ''t'' c, nc_title ?p, nc_body ?p))
                      (filter (\<lambda>c. get_subscription_tokens st_tree ''t'' c \<noteq> [])
                         (nc_channel_ids ?p)),
                 notifications := notifications st_tree @
                    map (\<lambda>jc. (fst (fresh_ids (fst jc)), msg_of ''t'' ?p admin fresh_ids jc))
                      (filter (\<lambda>jc. get_subscription_tokens st_tree ''t'' (snd jc) \<noteq> [])
                         (enumerate 0 (nc_channel_ids ?p)))\<rparr>)"
    by blast
  then have run: "send_notifications st_tree ?p ''t'' admin fresh_ids
       = (Inr (msg_of ''t'' ?p admin fresh_ids (1, ''a'')),
          st_tree\<lparr>fcm_sent := [([''tok-bob''], ''T'', ''B'')],
                  notifications := [(''nn'', msg_of ''t'' ?p admin fresh_ids (1, ''a''))]\<rparr>)"
    by (simp add: cs tk quiet before fresh_ids_def)
  from T have "send_notifications (st_tree\<lparr>channels := []\<rparr>) ?p ''t'' admin fresh_ids
           = (fst (send_notifications st_tree ?p ''t'' admin fresh_ids),
              (snd (send_notifications st_tree ?p ''t'' admin fresh_ids))\<lparr>channels := []\<rparr>)"
    by blast
  then have other: "fcm_sent (snd (send_notifications (st_tree\<lparr>channels := []\<rparr>) ?p ''t'' admin
                                     fresh_ids)) = [([''tok-bob''], ''T'', ''B'')]"
    by (simp add: run)
  show ?thesis
    using t gone quiet run other by simp
qed


text \<open>
  Claim C3, as stated, fails: subscribers are not united over the targets. Bob follows
  channel \<open>a\<close> and its child \<open>b\<close>; a send to both hands the provider two batches,
  each with bob's token.
\<close>

theorem subscriber_of_two_targets_is_sent_twice:
  "subscribers_of st_tree ''t'' ''a'' = {''bob''}
   \<and> subscribers_of st_tree ''t'' ''b'' = {''bob''}
   \<and> fcm_sent (snd (send_notifications st_tree (notice [''a'', ''b''] True) ''t'' admin fresh_ids))
       = [([''tok-bob''], ''T'', ''B''), ([''tok-bob''], ''T'', ''B'')]"
  by (simp add: send_notifications_def send_notification_def firebase_send_def
        get_subscription_tokens_def get_tenant_id_def is_tenant_admin_def subscribers_of_def
        st_tree_def new_Notification_def example_defs store_defs Let_def)

text \<open>
  Claim C3, amended. Each target is resolved and dispatched on its own. With an existing
  tenant and record ids that are new and pairwise different, the provider is handed one
  batch per entry of the target list whose token list is non-empty, in target order,
  carrying that channel's tokens. The tokens of one channel are those of the token
  records keyed \<open>user:tenant\<close> for a user in the set of the channel's subscribers, each
  such record read once, however many subscription rows name the user. A user who
  follows several targets is therefore in one batch per such target.
\<close>

theorem channel_send_batches:
  assumes tenant: "fetchrow_id (tenants st) tenant \<noteq> None"
      and distinct_ids: "distinct (map (\<lambda>j. fst (fresh j)) [0..<length (nc_channel_ids payload)])"
      and unused_ids: "\<forall>j < length (nc_channel_ids payload).
                         \<not> has_key (notifications st) (fst (fresh j))"
  shows "fcm_sent (snd (send_notifications st payload tenant user fresh))
           = fcm_sent st @
               map (\<lambda>c. (get_subscription_tokens st tenant c, nc_title payload, nc_body payload))
                 (filter (\<lambda>c. get_subscription_tokens st tenant c \<noteq> [])
                    (nc_channel_ids payload))
       \<and> get_subscription_tokens st tenant channel
           = concat (map (\<lambda>(k, d). tk_device_tokens d)
               (filter (\<lambda>(k, d). k \<in> (\<lambda>u. u @ '':'' @ tenant) ` subscribers_of st tenant channel)
                  (tokens st)))"
proof -
  have batches: "fcm_sent (snd (send_notifications st payload tenant user fresh))
           = fcm_sent st @
               map (\<lambda>c. (get_subscription_tokens st tenant c, nc_title payload, nc_body payload))
                 (filter (\<lambda>c. get_subscription_tokens st tenant c \<noteq> [])
                    (nc_channel_ids payload))"
  proof (cases "nc_channel_ids payload = []")
    case True
    then show ?thesis
      using tenant by (simp add: send_notifications_def get_tenant_id_def split: option.splits)
  next
    case False
    show ?thesis
      by (simp add: send_notifications_fresh[OF tenant False distinct_ids unused_ids])
  qed
  have one: "get_subscription_tokens st tenant channel
           = concat (map (\<lambda>(k, d). tk_device_tokens d)
               (filter (\<lambda>(k, d). k \<in> (\<lambda>u. u @ '':'' @ tenant) ` subscribers_of st tenant channel)
                  (tokens st)))"
  proof (cases "fetch_where (subscriptions st)
                  (\<lambda>d. sub_tenant_id d = tenant \<and> sub_channel_id d = channel) = []")
    case True
    then show ?thesis
      by (simp add: get_subscription_tokens_def subscribers_of_def)
  next
    case False
    have img: "set (map (\<lambda>d. sub_user_id d @ '':'' @ tenant)
                 (fetch_where (subscriptions st)
                    (\<lambda>d. sub_tenant_id d = tenant \<and> sub_channel_id d = channel)))
               = (\<lambda>u. u @ '':'' @ tenant) ` subscribers_of st tenant channel"
      by (simp add: subscribers_of_def image_image)
    have shape: "\<And>xs. map tk_device_tokens (map snd xs)
                   = map (\<lambda>(k, d). tk_device_tokens d) (xs :: Tokens table)"
      by (simp add: case_prod_unfold)
    show ?thesis
      using False
      by (simp only: get_subscription_tokens_def Let_def if_False img shape)
  qed
  show ?thesis using batches one by blast
qed

theorem channel_send_batches_witness:
  "fetchrow_id (tenants st_tree) ''t'' \<noteq> None
   \<and> distinct (map (\<lambda>j. fst (fresh_ids j)) [0..<length [''c'', ''quiet'', ''a'']])
   \<and> fcm_sent (snd (send_notifications st_tree (notice [''c'', ''quiet'', ''a''] False) ''t''
                      admin fresh_ids))
       = [([''tok-alice''], ''T'', ''B''), ([''tok-bob''], ''T'', ''B'')]"
proof -
  let ?p = "notice [''c'', ''quiet'', ''a''] False"
  have cs: "nc_channel_ids ?p = [''c'', ''quiet'', ''a'']"
    "nc_title ?p = ''T''" "nc_body ?p = ''B''"
    by (simp_all add: notice_def)
  have t: "fetchrow_id (tenants st_tree) ''t'' \<noteq> None"
    by (simp add: st_tree_def example_defs store_defs)
  have d: "distinct (map (\<lambda>j. fst (fresh_ids j)) [0..<length (nc_channel_ids ?p)])"
    by (simp add: cs fresh_ids_def upt_rec)
  have u: "\<forall>j < length (nc_channel_ids ?p).
             \<not> has_key (notifications st_tree) (fst (fresh_ids j))"
    by (simp add: st_tree_def example_defs store_defs)
  have tk: "get_subscription_tokens st_tree ''t'' ''a'' = [''tok-bob'']"
    "get_subscription_tokens st_tree ''t'' ''quiet'' = []"
    "get_subscription_tokens st_tree ''t'' ''c'' = [''tok-alice'']"
    by (simp_all add: get_subscription_tokens_def st_tree_def example_defs store_defs Let_def)
  have none: "fcm_sent st_tree = []"
    by (simp add: st_tree_def example_defs)
  from channel_send_batches[OF t d u, of admin]
  have "fcm_sent (snd (send_notifications st_tree ?p ''t'' admin fresh_ids))
           = fcm_sent st_tree @
               map (\<lambda>c. (get_subscription_tokens st_tree ''t'' c, nc_title ?p, nc_body ?p))
                 (filter (\<lambda>c. get_subscription_tokens st_tree ''t'' c \<noteq> [])
                    (nc_channel_ids ?p))"
    by blast
  then show ?thesis
    using t d by (simp add: cs tk none)
qed

text \<open>
  Claim C4 on the code. The request carries \<open>include_child_channels\<close>, by default set,
  and the send never reads it: in the tree \<open>a\<close>, \<open>b\<close> under \<open>a\<close>, \<open>c\<close> under
  \<open>b\<close>, a send to \<open>a\<close> with the option set reaches the followers of \<open>a\<close> only.
  Alice, who follows \<open>c\<close> and has a token, is sent nothing, and the outcome is the one
  of the same request with the option unset.
\<close>

theorem send_to_root_skips_descendants:
  "ch_parent_id (the (fetchrow_id (channels st_tree) ''b'')) = Some ''a''
   \<and> ch_parent_id (the (fetchrow_id (channels st_tree) ''c'')) = Some ''b''
   \<and> get_subscription_tokens st_tree ''t'' ''b'' = [''tok-bob'']
   \<and> get_subscription_tokens st_tree ''t'' ''c'' = [''tok-alice'']
   \<and> fcm_sent (snd (send_notifications st_tree (notice [''a''] True) ''t'' admin fresh_ids))
       = [([''tok-bob''], ''T'', ''B'')]
   \<and> fcm_sent (snd (send_notifications st_tree (notice [''a''] False) ''t'' admin fresh_ids))
       = [([''tok-bob''], ''T'', ''B'')]"
  by (simp add: send_notifications_def send_notification_def firebase_send_def
        get_subscription_tokens_def get_tenant_id_def is_tenant_admin_def
        st_tree_def new_Notification_def example_defs store_defs Let_def)


section \<open>Listing channels\<close>

text \<open>
  Claim C5 on the code. \<open>list_channels\<close> takes \<open>include_private\<close>, described in the
  source as "Also include private channels" with default false, and never reads it:
  with the option unset the private channel of the tenant is listed with the rest, and
  the answer is the one given with the option set.
\<close>

theorem private_channel_listed_without_option:
  "ch_is_private (channel_doc ''secret'' ''t'' True None)
   \<and> list_channels st_private False ''t'' alice
       = Inr [channel_doc ''pub'' ''t'' False None, channel_doc ''secret'' ''t'' True None]
   \<and> list_channels st_private True ''t'' alice = list_channels st_private False ''t'' alice"
  by (simp add: list_channels_def get_tenant_id_def st_private_def example_defs store_defs)

section \<open>Direct sends\<close>

text \<open>
  Claim C8. A direct send in an existing tenant, addressed to a user (the user id is not
  empty; an empty one is answered \<open>BadRequest\<close> before any lookup) whose token record
  is absent or holds no token, fails with \<open>PreconditionRequired\<close> and leaves the whole
  state as it was: no record is written and the provider is not called.
\<close>

theorem direct_send_requires_tokens:
  assumes tenant: "fetchrow_id (tenants st) tenant \<noteq> None"
      and addressed: "dn_user_id payload \<noteq> []"
      and no_tokens: "case fetchrow_id (tokens st) (dn_user_id payload @ '':'' @ tenant) of
                        None \<Rightarrow> True
                      | Some row \<Rightarrow> tk_device_tokens row = []"
  shows "send_direct_notifications st payload tenant user drawn = (Inl PreconditionRequired, st)
       \<and> notifications (snd (send_direct_notifications st payload tenant user drawn))
           = notifications st
       \<and> fcm_sent (snd (send_direct_notifications st payload tenant user drawn)) = fcm_sent st"
proof -
  have "get_user_tokens st tenant (dn_user_id payload) = []"
    using no_tokens by (simp add: get_user_tokens_def split: option.splits)
  then have "send_direct_notifications st payload tenant user drawn
               = (Inl PreconditionRequired, st)"
    using tenant addressed
    by (auto simp: send_direct_notifications_def get_tenant_id_def is_tenant_admin_def Let_def
          split: option.splits)
  then show ?thesis by simp
qed

theorem direct_send_requires_tokens_witness:
  "fetchrow_id (tenants st_unregistered) ''t'' \<noteq> None
   \<and> fetchrow_id (tokens st_unregistered) ''carol:t'' = None
   \<and> send_direct_notifications st_unregistered (direct ''carol'') ''t'' admin (''n'', ''1'')
       = (Inl PreconditionRequired, st_unregistered)
   \<and> map_option tk_device_tokens (fetchrow_id (tokens st_unregistered) ''dave:t'') = Some []
   \<and> send_direct_notifications st_unregistered (direct ''dave'') ''t'' admin (''n'', ''1'')
       = (Inl PreconditionRequired, st_unregistered)"
proof -
  have t: "fetchrow_id (tenants st_unregistered) ''t'' \<noteq> None"
    by (simp add: st_unregistered_def example_defs store_defs)
  have carol: "fetchrow_id (tokens st_unregistered) ''carol:t'' = None"
    by (simp add: st_unregistered_def example_defs store_defs)
  have dave: "map_option tk_device_tokens (fetchrow_id (tokens st_unregistered) ''dave:t'')
                = Some []"
    by (simp add: st_unregistered_def example_defs store_defs)
  have a1: "dn_user_id (direct ''carol'') \<noteq> []" and a2: "dn_user_id (direct ''dave'') \<noteq> []"
    by (simp_all add: direct_def)
  have n1: "case fetchrow_id (tokens st_unregistered) (dn_user_id (direct ''carol'') @ '':'' @ ''t'')
              of None \<Rightarrow> True | Some row \<Rightarrow> tk_device_tokens row = []"
    using carol by (simp add: direct_def)
  have n2: "case fetchrow_id (tokens st_unregistered) (dn_user_id (direct ''dave'') @ '':'' @ ''t'')
              of None \<Rightarrow> True | Some row \<Rightarrow> tk_device_tokens row = []"
    using dave by (auto simp: direct_def split: option.splits)
  show ?thesis
    using t carol dave
      direct_send_requires_tokens[OF t a1 n1, of admin "(''n'', ''1'')"]
      direct_send_requires_tokens[OF t a2 n2, of admin "(''n'', ''1'')"]
    by simp
qed


section \<open>Registering device tokens\<close>

lemma fetchrow_upsert_row: "fetchrow_id (upsert_row tbl k d) k = Some d"
proof (cases "has_key tbl k")
  case True
  have "k \<in> set (map fst tbl) \<Longrightarrow>
        map_of (map (\<lambda>(k', d'). if k' = k then (k', d) else (k', d')) tbl) k = Some d"
    by (induction tbl) auto
  with True show ?thesis
    by (simp add: upsert_row_def fetchrow_id_def has_key_def)
next
  case False
  then have "map_of tbl k = None"
    by (simp add: has_key_def map_of_eq_None_iff)
  with False show ?thesis
    by (simp add: upsert_row_def fetchrow_id_def map_add_def)
qed

lemma get_user_tokens_after_upsert:
  "get_user_tokens (st\<lparr>tokens := upsert_row (tokens st) (uid @ CHR '':'' # tenant) d\<rparr>)
     tenant uid = tk_device_tokens d"
  by (simp add: get_user_tokens_def fetchrow_upsert_row)

lemma save_user_token_cases:
  assumes tenant: "fetchrow_id (tenants st) tenant \<noteq> None"
  shows "save_user_token st incoming tenant user now =
     (Inr (),
      if fetchrow_id (tokens st) (preferred_username user @ '':'' @ tenant) \<noteq> None
         \<and> set incoming \<subseteq> set (get_user_tokens st tenant (preferred_username user))
      then st
      else st\<lparr>tokens := upsert_row (tokens st) (preferred_username user @ '':'' @ tenant)
             \<lparr> tk_id = preferred_username user @ '':'' @ tenant, tk_tenant_id = tenant,
               tk_device_tokens =
                 (if fetchrow_id (tokens st) (preferred_username user @ '':'' @ tenant) = None
                  then incoming
                  else list_of_union (get_user_tokens st tenant (preferred_username user))
                         incoming),
               tk_updated_at = now \<rparr>\<rparr>)"
  using tenant
  by (auto simp: save_user_token_def get_tenant_id_def get_user_tokens_def Let_def
        split: option.splits)

lemma save_user_token_tenants:
  "tenants (snd (save_user_token st incoming tenant user now)) = tenants st"
  by (auto simp: save_user_token_def get_tenant_id_def Let_def split: option.splits sum.splits)

lemma save_user_token_set:
  assumes tenant: "fetchrow_id (tenants st) tenant \<noteq> None"
  shows "set (get_user_tokens (snd (save_user_token st incoming tenant user now)) tenant
                (preferred_username user))
         = set (get_user_tokens st tenant (preferred_username user)) \<union> set incoming"
proof (cases "fetchrow_id (tokens st) (preferred_username user @ '':'' @ tenant)")
  case None
  then have "get_user_tokens st tenant (preferred_username user) = []"
    by (simp add: get_user_tokens_def)
  with None show ?thesis
    by (simp add: save_user_token_cases[OF tenant] get_user_tokens_after_upsert)
next
  case (Some row)
  then show ?thesis
    by (auto simp: save_user_token_cases[OF tenant] get_user_tokens_after_upsert
          list_of_union_def)
qed

text \<open>
  Claim C6, as stated, fails where no record exists yet: the empty incoming list is a
  subset of the (empty) existing set, and still a record is written.
\<close>

theorem first_registration_always_writes:
  "fetchrow_id (tokens st_quiet) ''alice:t'' = None
   \<and> get_user_tokens st_quiet ''t'' ''alice'' = []
   \<and> set ([] :: string list) \<subseteq> set (get_user_tokens st_quiet ''t'' ''alice'')
   \<and> save_user_token st_quiet [] ''t'' alice ''9''
       = (Inr (), st_quiet\<lparr>tokens :=
                    [(''alice:t'', snd (tokens_row ''alice'' ''t'' [])\<lparr>tk_updated_at := ''9''\<rparr>)]\<rparr>)
   \<and> tokens (snd (save_user_token st_quiet [] ''t'' alice ''9'')) \<noteq> tokens st_quiet"
  by (simp add: save_user_token_def get_user_tokens_def get_tenant_id_def st_quiet_def
        example_defs store_defs Let_def)


text \<open>
  Claim C6, amended. In an existing tenant a registration never fails, and afterwards the
  user's token set is the union of the set before (empty when there was no record) and
  the incoming set. When a record exists and the incoming set is a subset of its set,
  nothing is written: the whole state, \<open>updated_at\<close> included, is as before. In every
  other case, also a first registration with an empty list, a record holding the union
  is stored under the key \<open>user:tenant\<close> with the time of the call. Two registrations
  in a row leave the union of all three sets, so \<open>{a,b}\<close> then \<open>{b,c}\<close> from no
  record leaves exactly \<open>{a,b,c}\<close>.
\<close>

theorem save_user_token_union:
  assumes tenant: "fetchrow_id (tenants st) tenant \<noteq> None"
  shows "fst (save_user_token st incoming tenant user now) = Inr ()
       \<and> set (get_user_tokens (snd (save_user_token st incoming tenant user now)) tenant
                 (preferred_username user))
           = set (get_user_tokens st tenant (preferred_username user)) \<union> set incoming
       \<and> (fetchrow_id (tokens st) (preferred_username user @ '':'' @ tenant) \<noteq> None
            \<and> set incoming \<subseteq> set (get_user_tokens st tenant (preferred_username user))
          \<longrightarrow> snd (save_user_token st incoming tenant user now) = st)
       \<and> (fetchrow_id (tokens st) (preferred_username user @ '':'' @ tenant) = None
            \<or> \<not> set incoming \<subseteq> set (get_user_tokens st tenant (preferred_username user))
          \<longrightarrow> (\<exists>row. fetchrow_id (tokens (snd (save_user_token st incoming tenant user now)))
                        (preferred_username user @ '':'' @ tenant) = Some row
                    \<and> set (tk_device_tokens row)
                        = set (get_user_tokens st tenant (preferred_username user)) \<union> set incoming
                    \<and> tk_updated_at row = now))
       \<and> set (get_user_tokens
                 (snd (save_user_token (snd (save_user_token st incoming tenant user now))
                         later tenant user now'))
                 tenant (preferred_username user))
           = set (get_user_tokens st tenant (preferred_username user)) \<union> set incoming
               \<union> set later"
proof -
  let ?uid = "preferred_username user"
  let ?st1 = "snd (save_user_token st incoming tenant user now)"
  have ok: "fst (save_user_token st incoming tenant user now) = Inr ()"
    by (simp add: save_user_token_cases[OF tenant])
  have union: "set (get_user_tokens ?st1 tenant ?uid)
                 = set (get_user_tokens st tenant ?uid) \<union> set incoming"
    by (rule save_user_token_set[OF tenant])
  have same: "fetchrow_id (tokens st) (?uid @ '':'' @ tenant) \<noteq> None
            \<and> set incoming \<subseteq> set (get_user_tokens st tenant ?uid) \<longrightarrow> ?st1 = st"
    by (simp add: save_user_token_cases[OF tenant])
  have written: "fetchrow_id (tokens st) (?uid @ '':'' @ tenant) = None
            \<or> \<not> set incoming \<subseteq> set (get_user_tokens st tenant ?uid)
          \<longrightarrow> (\<exists>row. fetchrow_id (tokens ?st1) (?uid @ '':'' @ tenant) = Some row
                    \<and> set (tk_device_tokens row)
                        = set (get_user_tokens st tenant ?uid) \<union> set incoming
                    \<and> tk_updated_at row = now)"
  proof (cases "fetchrow_id (tokens st) (?uid @ '':'' @ tenant)")
    case None
    then have "get_user_tokens st tenant ?uid = []"
      by (simp add: get_user_tokens_def)
    with None show ?thesis
      by (simp add: save_user_token_cases[OF tenant] fetchrow_upsert_row)
  next
    case (Some row)
    then show ?thesis
      by (auto simp: save_user_token_cases[OF tenant] fetchrow_upsert_row list_of_union_def)
  qed
  have tenant1: "fetchrow_id (tenants ?st1) tenant \<noteq> None"
    using tenant by (simp add: save_user_token_tenants)
  have twice: "set (get_user_tokens (snd (save_user_token ?st1 later tenant user now')) tenant ?uid)
                 = set (get_user_tokens st tenant ?uid) \<union> set incoming \<union> set later"
    using save_user_token_set[OF tenant1, of later user now'] union by simp
  show ?thesis
    using ok union same written twice by blast
qed

theorem save_user_token_union_witness:
  "fetchrow_id (tenants st_quiet) ''t'' \<noteq> None
   \<and> get_user_tokens st_quiet ''t'' ''alice'' = []
   \<and> set (get_user_tokens
            (snd (save_user_token (snd (save_user_token st_quiet [''a'', ''b''] ''t'' alice ''1''))
                    [''b'', ''c''] ''t'' alice ''2''))
            ''t'' ''alice'')
       = {''a'', ''b'', ''c''}"
proof -
  have t: "fetchrow_id (tenants st_quiet) ''t'' \<noteq> None"
    by (simp add: st_quiet_def example_defs store_defs)
  have none: "get_user_tokens st_quiet ''t'' ''alice'' = []"
    by (simp add: get_user_tokens_def st_quiet_def example_defs store_defs)
  have name: "preferred_username alice = ''alice''"
    by (simp add: alice_def)
  from save_user_token_union[OF t, of "[''a'', ''b'']" alice "''1''" "[''b'', ''c'']" "''2''"]
  have "set (get_user_tokens
            (snd (save_user_token (snd (save_user_token st_quiet [''a'', ''b''] ''t'' alice ''1''))
                    [''b'', ''c''] ''t'' alice ''2''))
            ''t'' (preferred_username alice))
        = set (get_user_tokens st_quiet ''t'' (preferred_username alice))
            \<union> set [''a'', ''b''] \<union> set [''b'', ''c'']"
    by blast
  then show ?thesis
    using t none by (auto simp: name)
qed


section \<open>Subscribing\<close>

lemma split_at_last:
  assumes "a \<notin> set ys" "a \<notin> set ys'" "xs @ a # ys = xs' @ a # ys'"
  shows "xs = xs' \<and> ys = ys'"
proof -
  from assms(3) have "rev (xs @ a # ys) = rev (xs' @ a # ys')" by simp
  then have eq: "rev ys @ a # rev xs = rev ys' @ a # rev xs'" by simp
  have stop: "\<And>zs ws. a \<notin> set zs \<Longrightarrow> takeWhile (\<lambda>x. x \<noteq> a) (rev zs @ a # ws) = rev zs"
  proof -
    fix zs ws assume "a \<notin> set zs"
    then have "\<And>x. x \<in> set (rev zs) \<Longrightarrow> x \<noteq> a" by auto
    then have "takeWhile (\<lambda>x. x \<noteq> a) (rev zs @ a # ws)
                 = rev zs @ takeWhile (\<lambda>x. x \<noteq> a) (a # ws)"
      by (rule takeWhile_append2)
    then show "takeWhile (\<lambda>x. x \<noteq> a) (rev zs @ a # ws) = rev zs" by simp
  qed
  have "rev ys = takeWhile (\<lambda>x. x \<noteq> a) (rev ys @ a # rev xs)"
    using stop[OF assms(1)] by simp
  also have "\<dots> = takeWhile (\<lambda>x. x \<noteq> a) (rev ys' @ a # rev xs')"
    using eq by simp
  also have "\<dots> = rev ys'"
    using stop[OF assms(2)] by simp
  finally have "rev ys = rev ys'" .
  then have ys: "ys = ys'" by simp
  with assms(3) show ?thesis by simp
qed

lemma id_pattern_chars:
  assumes "id_pattern s"
  shows "CHR ''@'' \<notin> set s \<and> CHR '':'' \<notin> set s"
proof -
  have no: "\<not> id_char CHR ''@''" "\<not> id_char CHR '':''"
    by (simp_all add: id_char_def)
  from assms have "\<forall>c \<in> set s. id_char c"
    by (simp add: id_pattern_def list_all_iff)
  with no show ?thesis by blast
qed

lemma subscription_key_inj:
  assumes "id_pattern c" "id_pattern t" "id_pattern c'" "id_pattern t'"
      and "subscription_key u c t = subscription_key u' c' t'"
  shows "u = u' \<and> c = c' \<and> t = t'"
proof -
  from assms(5) have eq: "(u @ ''@'' @ c) @ CHR '':'' # t = (u' @ ''@'' @ c') @ CHR '':'' # t'"
    by (simp add: subscription_key_def)
  have "u @ ''@'' @ c = u' @ ''@'' @ c' \<and> t = t'"
    using id_pattern_chars[OF assms(2)] id_pattern_chars[OF assms(4)] eq
    by (intro split_at_last) auto
  then have uc: "u @ CHR ''@'' # c = u' @ CHR ''@'' # c'" and t: "t = t'" by simp_all
  have "u = u' \<and> c = c'"
    using id_pattern_chars[OF assms(1)] id_pattern_chars[OF assms(3)] uc
    by (intro split_at_last) auto
  with t show ?thesis by simp
qed

lemma has_key_insert_do_nothing: "has_key (insert_do_nothing tbl k d) k"
  by (simp add: insert_do_nothing_def has_key_def)

lemma insert_do_nothing_again:
  "insert_do_nothing (insert_do_nothing tbl k d) k d' = insert_do_nothing tbl k d"
  by (simp add: insert_do_nothing_def has_key_def)

lemma distinct_insert_do_nothing:
  "distinct (map fst tbl) \<Longrightarrow> distinct (map fst (insert_do_nothing tbl k d))"
  by (simp add: insert_do_nothing_def has_key_def)

lemma one_row_per_key:
  "distinct (map fst tbl) \<Longrightarrow> has_key tbl k \<Longrightarrow>
   length (filter (\<lambda>(k', d). k' = k) tbl) = 1"
proof (induction tbl)
  case Nil
  then show ?case by (simp add: has_key_def)
next
  case (Cons row tbl)
  show ?case
  proof (cases "fst row = k")
    case True
    with Cons.prems have "k \<notin> fst ` set tbl" by auto
    then have "filter (\<lambda>(k', d). k' = k) tbl = []"
      by (force simp: filter_empty_conv)
    with True show ?thesis by (simp add: case_prod_unfold)
  next
    case False
    with Cons.prems have "has_key tbl k" "distinct (map fst tbl)"
      by (auto simp: has_key_def)
    with Cons.IH False show ?thesis by (simp add: case_prod_unfold)
  qed
qed

lemma fetchrow_insert_do_nothing_new:
  assumes "\<not> has_key tbl k"
  shows "fetchrow_id (insert_do_nothing tbl k d) k = Some d"
proof -
  from assms have "map_of tbl k = None"
    by (simp add: has_key_def map_of_eq_None_iff)
  with assms show ?thesis
    by (simp add: insert_do_nothing_def fetchrow_id_def map_add_def)
qed

lemma fetchrow_insert_do_nothing_old:
  "has_key tbl k \<Longrightarrow> fetchrow_id (insert_do_nothing tbl k d) k = fetchrow_id tbl k"
  by (simp add: insert_do_nothing_def)

lemma fetchrow_has_key:
  assumes "has_key tbl k"
  shows "\<exists>d. fetchrow_id tbl k = Some d"
proof -
  from assms have "map_of tbl k \<noteq> None"
    by (simp add: has_key_def map_of_eq_None_iff)
  then show ?thesis
    by (cases "map_of tbl k") (simp_all add: fetchrow_id_def)
qed

lemma ledger_wf_row:
  assumes "ledger_wf tbl" "fetchrow_id tbl k = Some d"
  shows "k = subscription_key (sub_user_id d) (sub_channel_id d) (sub_tenant_id d) \<and> sub_id d = k
   \<and> id_pattern (sub_channel_id d) \<and> id_pattern (sub_tenant_id d)"
proof -
  from assms(2) have "(k, d) \<in> set tbl"
    by (simp add: fetchrow_id_def map_of_SomeD)
  with assms(1) show ?thesis
    unfolding ledger_wf_def list_all_iff by fast
qed


lemma subscribe_to_channel_unfold:
  assumes "subscribe_to_channel st tenant channel user now = (Inr r, st')"
  shows "fetchrow_id (tenants st) tenant \<noteq> None"
    and "fetchrow_id (channels st) channel \<noteq> None"
    and "r = \<lparr> sr_id = subscription_key (preferred_username user) channel tenant,
               sr_tenant_id = tenant, sr_channel_id = channel,
               sr_user_id = preferred_username user \<rparr>"
    and "st' = st\<lparr>subscriptions :=
                   insert_do_nothing (subscriptions st)
                     (subscription_key (preferred_username user) channel tenant)
                     \<lparr> sub_id = subscription_key (preferred_username user) channel tenant,
                       sub_tenant_id = tenant, sub_channel_id = channel,
                       sub_user_id = preferred_username user, sub_created_at = now \<rparr>\<rparr>"
  using assms
  by (auto simp: subscribe_to_channel_def get_tenant_id_def get_channel_id_def Let_def
        as_SubscriptionRead_def split: option.splits)

text \<open>
  Claim C7. Subscribing is idempotent. After a successful \<open>subscribe_to_channel\<close>, the
  same call again (at any later time) succeeds with the same answer and changes nothing.
  With a ledger whose keys are unique, exactly one row then sits under the key
  \<open>user@channel:tenant\<close>. The answer carries the key, the tenant, the channel and the
  user: when the first call created the row, it is that row as the caller sees it
  (\<open>created_at\<close> is not part of the answer); when the row was there before, in a ledger
  whose rows sit under the keys of their own fields with ids fitting the id pattern, it
  is again the stored row as the caller sees it.
\<close>

theorem subscribe_to_channel_idempotent:
  assumes first: "subscribe_to_channel st tenant channel user now1 = (Inr r1, st1)"
      and keys: "distinct (map fst (subscriptions st))"
  shows "subscribe_to_channel st1 tenant channel user now2 = (Inr r1, st1)
       \<and> length (filter (\<lambda>(k, d). k = subscription_key (preferred_username user) channel tenant)
                   (subscriptions st1)) = 1
       \<and> distinct (map fst (subscriptions st1))
       \<and> sr_id r1 = subscription_key (preferred_username user) channel tenant
       \<and> (\<not> has_key (subscriptions st) (subscription_key (preferred_username user) channel tenant)
          \<longrightarrow> fetchrow_id (subscriptions st1)
                  (subscription_key (preferred_username user) channel tenant)
                = Some \<lparr> sub_id = subscription_key (preferred_username user) channel tenant,
                         sub_tenant_id = tenant, sub_channel_id = channel,
                         sub_user_id = preferred_username user, sub_created_at = now1 \<rparr>)
       \<and> ((\<not> has_key (subscriptions st)
                 (subscription_key (preferred_username user) channel tenant)
             \<or> (ledger_wf (subscriptions st) \<and> id_pattern tenant \<and> id_pattern channel))
          \<longrightarrow> (\<exists>d. fetchrow_id (subscriptions st1)
                        (subscription_key (preferred_username user) channel tenant) = Some d
                   \<and> as_SubscriptionRead d = r1))"
proof -
  let ?key = "subscription_key (preferred_username user) channel tenant"
  let ?new = "\<lambda>now. \<lparr> sub_id = ?key, sub_tenant_id = tenant, sub_channel_id = channel,
                       sub_user_id = preferred_username user, sub_created_at = now \<rparr>"
  note u = subscribe_to_channel_unfold[OF first]
  have subs1: "subscriptions st1 = insert_do_nothing (subscriptions st) ?key (?new now1)"
    and tenants1: "tenants st1 = tenants st" and channels1: "channels st1 = channels st"
    using u(4) by simp_all
  have again: "subscribe_to_channel st1 tenant channel user now2 = (Inr r1, st1)"
    using u(1) u(2) u(3)
    by (simp add: subscribe_to_channel_def get_tenant_id_def get_channel_id_def Let_def
          as_SubscriptionRead_def tenants1 channels1 subs1 insert_do_nothing_again
          split: option.splits)
  have dist: "distinct (map fst (subscriptions st1))"
    using keys by (simp add: subs1 distinct_insert_do_nothing)
  have one: "length (filter (\<lambda>(k, d). k = ?key) (subscriptions st1)) = 1"
    using dist by (rule one_row_per_key) (simp add: subs1 has_key_insert_do_nothing)
  have key: "sr_id r1 = ?key"
    using u(3) by simp
  have created: "\<not> has_key (subscriptions st) ?key \<longrightarrow>
                 fetchrow_id (subscriptions st1) ?key = Some (?new now1)"
    by (simp add: subs1 fetchrow_insert_do_nothing_new)
  have view_new: "as_SubscriptionRead (?new now1) = r1"
    using u(3) by (simp add: as_SubscriptionRead_def)
  have stored: "(\<not> has_key (subscriptions st) ?key
             \<or> (ledger_wf (subscriptions st) \<and> id_pattern tenant \<and> id_pattern channel))
          \<longrightarrow> (\<exists>d. fetchrow_id (subscriptions st1) ?key = Some d \<and> as_SubscriptionRead d = r1)"
  proof (cases "has_key (subscriptions st) ?key")
    case False
    with created view_new show ?thesis by blast
  next
    case True
    then obtain d where d: "fetchrow_id (subscriptions st) ?key = Some d"
      using fetchrow_has_key by blast
    have same: "fetchrow_id (subscriptions st1) ?key = Some d"
      using True d by (simp add: subs1 fetchrow_insert_do_nothing_old)
    {
      assume wf: "ledger_wf (subscriptions st)" and t: "id_pattern tenant"
        and c: "id_pattern channel"
      note row = ledger_wf_row[OF wf d]
      from row have eq: "subscription_key (preferred_username user) channel tenant
                     = subscription_key (sub_user_id d) (sub_channel_id d) (sub_tenant_id d)"
        by simp
      from row have pc: "id_pattern (sub_channel_id d)" and pt: "id_pattern (sub_tenant_id d)"
        by simp_all
      have "preferred_username user = sub_user_id d \<and> channel = sub_channel_id d
            \<and> tenant = sub_tenant_id d"
        using subscription_key_inj[OF c t pc pt eq] .
      with row u(3) have "as_SubscriptionRead d = r1"
        by (simp add: as_SubscriptionRead_def)
    }
    with same True show ?thesis by blast
  qed
  show ?thesis
    using again one dist key created stored by blast
qed


theorem subscribe_to_channel_idempotent_witness:
  "distinct (map fst (subscriptions st_tree))
   \<and> \<not> has_key (subscriptions st_tree) ''alice@a:t''
   \<and> fst (subscribe_to_channel st_tree ''t'' ''a'' alice ''5'')
       = Inr \<lparr> sr_id = ''alice@a:t'', sr_tenant_id = ''t'', sr_channel_id = ''a'',
               sr_user_id = ''alice'' \<rparr>
   \<and> subscribe_to_channel (snd (subscribe_to_channel st_tree ''t'' ''a'' alice ''5''))
         ''t'' ''a'' alice ''6''
       = (Inr \<lparr> sr_id = ''alice@a:t'', sr_tenant_id = ''t'', sr_channel_id = ''a'',
                sr_user_id = ''alice'' \<rparr>,
          snd (subscribe_to_channel st_tree ''t'' ''a'' alice ''5''))
   \<and> length (filter (\<lambda>(k, d). k = ''alice@a:t'')
               (subscriptions (snd (subscribe_to_channel st_tree ''t'' ''a'' alice ''5'')))) = 1
   \<and> map_option sub_created_at
        (fetchrow_id (subscriptions (snd (subscribe_to_channel st_tree ''t'' ''a'' alice ''5'')))
           ''alice@a:t'') = Some ''5''"
proof -
  let ?r = "\<lparr> sr_id = ''alice@a:t'', sr_tenant_id = ''t'', sr_channel_id = ''a'',
               sr_user_id = ''alice'' \<rparr>"
  let ?st1 = "st_tree\<lparr>subscriptions := subscriptions st_tree @
                [(''alice@a:t'', \<lparr> sub_id = ''alice@a:t'', sub_tenant_id = ''t'',
                     sub_channel_id = ''a'', sub_user_id = ''alice'', sub_created_at = ''5'' \<rparr>)]\<rparr>"
  have keys: "distinct (map fst (subscriptions st_tree))"
    by (simp add: st_tree_def example_defs)
  have fresh: "\<not> has_key (subscriptions st_tree) ''alice@a:t''"
    by (simp add: st_tree_def example_defs store_defs)
  have run: "subscribe_to_channel st_tree ''t'' ''a'' alice ''5'' = (Inr ?r, ?st1)"
    by (simp add: subscribe_to_channel_def get_tenant_id_def get_channel_id_def
          as_SubscriptionRead_def st_tree_def example_defs store_defs Let_def)
  have name: "subscription_key (preferred_username alice) ''a'' ''t'' = ''alice@a:t''"
    by (simp add: example_defs)
  note T = subscribe_to_channel_idempotent[OF run keys, of "''6''", unfolded name]
  have again: "subscribe_to_channel ?st1 ''t'' ''a'' alice ''6'' = (Inr ?r, ?st1)"
    and one: "length (filter (\<lambda>(k, d). k = ''alice@a:t'') (subscriptions ?st1)) = 1"
    and row: "fetchrow_id (subscriptions ?st1) ''alice@a:t''
                = Some \<lparr> sub_id = ''alice@a:t'', sub_tenant_id = ''t'', sub_channel_id = ''a'',
                         sub_user_id = ''alice'', sub_created_at = ''5'' \<rparr>"
    using T fresh by (simp_all add: alice_def)
  show ?thesis
    using keys fresh again one row by (simp add: run)
qed


section \<open>Reading the history\<close>











end
